theory Spec2Isabelle
  imports Main "HOL-Library.Word"
begin

unbundle bit_operations_syntax

section \<open>File-information collection of gvfs (gfileinfosimple.c)\<close>

text \<open>
  A shallow embedding of \<^verbatim>\<open>src/gvfs/gfileinfosimple.c\<close>. A C \<^verbatim>\<open>char\<close> is a
  \<^typ>\<open>char\<close>, a C string or byte buffer a \<^typ>\<open>string\<close>, a pointer that may be
  \<^verbatim>\<open>NULL\<close> an \<^typ>\<open>'a option\<close>. Every call of the operating system and every
  \<^verbatim>\<open>g_malloc\<close>/\<^verbatim>\<open>g_realloc\<close> of the file is appended to a trace that the
  functions pass along, so that what a function asked of the system can be read off
  its result.
\<close>

subsection \<open>C strings\<close>

text \<open>The string a reader of \<^verbatim>\<open>const char *\<close> sees in a buffer: the bytes before the first NUL.\<close>

definition c_string :: "string \<Rightarrow> string" where
  "c_string buf = takeWhile (\<lambda>c. c \<noteq> CHR 0x00) buf"

subsection \<open>The operating system\<close>

datatype errno = ERANGE | ENOENT | EACCES | ENODATA | ENOTSUP | EINVAL | EIO | EBADF

datatype event =
    Stat string
  | Lstat string
  | Fstat int
  | Readlink string nat
  | Getxattr string string nat
  | Lgetxattr string string nat
  | Listxattr string nat
  | Llistxattr string nat
  | Is_selinux_enabled
  | Getfilecon_raw string
  | Lgetfilecon_raw string
  | Fgetfilecon_raw int
  | G_malloc nat
  | G_realloc nat

text \<open>
  The environment of one call: the build option \<^verbatim>\<open>HAVE_SELINUX\<close> and, for every system
  call, the answer of the system as a function of the call's arguments (\<open>Inl e\<close>: the call
  returns -1 with \<^verbatim>\<open>errno\<close> \<open>e\<close>). For \<^verbatim>\<open>readlink\<close>, \<^verbatim>\<open>getxattr\<close> and
  \<^verbatim>\<open>listxattr\<close> the field gives the object the call finds (link contents, attribute
  value, attribute names); the functions below apply the buffer rules of the manual
  pages to it. The type \<open>'st\<close> is \<^verbatim>\<open>struct stat\<close>.
\<close>

record 'st os_env =
  HAVE_SELINUX :: bool
  os_stat :: "string \<Rightarrow> errno + 'st"
  os_lstat :: "string \<Rightarrow> errno + 'st"
  os_fstat :: "int \<Rightarrow> errno + 'st"
  os_readlink :: "string \<Rightarrow> nat \<Rightarrow> errno + string"
  os_getxattr :: "string \<Rightarrow> string \<Rightarrow> nat \<Rightarrow> errno + string"
  os_lgetxattr :: "string \<Rightarrow> string \<Rightarrow> nat \<Rightarrow> errno + string"
  os_listxattr :: "string \<Rightarrow> nat \<Rightarrow> errno + string list"
  os_llistxattr :: "string \<Rightarrow> nat \<Rightarrow> errno + string list"
  os_is_selinux_enabled :: int
  os_getfilecon_raw :: "string \<Rightarrow> errno + string"
  os_lgetfilecon_raw :: "string \<Rightarrow> errno + string"
  os_fgetfilecon_raw :: "int \<Rightarrow> errno + string"

definition stat :: "'st os_env \<Rightarrow> string \<Rightarrow> event list \<Rightarrow> (errno + 'st) \<times> event list" where
  "stat env path tr = (os_stat env path, tr @ [Stat path])"

definition lstat :: "'st os_env \<Rightarrow> string \<Rightarrow> event list \<Rightarrow> (errno + 'st) \<times> event list" where
  "lstat env path tr = (os_lstat env path, tr @ [Lstat path])"

definition fstat :: "'st os_env \<Rightarrow> int \<Rightarrow> event list \<Rightarrow> (errno + 'st) \<times> event list" where
  "fstat env fd tr = (os_fstat env fd, tr @ [Fstat fd])"

text \<open>
  \<^verbatim>\<open>readlink (path, buf, bufsiz)\<close> places at most \<open>bufsiz\<close> bytes of the link contents in
  the buffer, without a terminator, and returns their number: the result is the bytes placed.
\<close>

definition readlink :: "'st os_env \<Rightarrow> string \<Rightarrow> nat \<Rightarrow> event list \<Rightarrow> (errno + string) \<times> event list" where
  "readlink env path bufsiz tr =
     ((case os_readlink env path bufsiz of
         Inl e \<Rightarrow> Inl e
       | Inr target \<Rightarrow> Inr (take bufsiz target)),
      tr @ [Readlink path bufsiz])"

text \<open>
  \<^verbatim>\<open>getxattr (path, name, value, size)\<close>: with \<open>size = 0\<close> the current length of the value
  is returned and nothing is written; a value longer than \<open>size\<close> fails with
  \<^verbatim>\<open>ERANGE\<close>; otherwise the value is written and its length returned. The result is the
  returned length and the bytes written.
\<close>

definition xattr_answer :: "errno + string \<Rightarrow> nat \<Rightarrow> errno + nat \<times> string" where
  "xattr_answer r bufsize =
     (case r of
        Inl e \<Rightarrow> Inl e
      | Inr v \<Rightarrow>
          if bufsize = 0 then Inr (length v, [])
          else if bufsize < length v then Inl ERANGE
          else Inr (length v, v))"

definition getxattr ::
  "'st os_env \<Rightarrow> string \<Rightarrow> string \<Rightarrow> nat \<Rightarrow> event list \<Rightarrow> (errno + nat \<times> string) \<times> event list" where
  "getxattr env path attr bufsize tr =
     (xattr_answer (os_getxattr env path attr bufsize) bufsize, tr @ [Getxattr path attr bufsize])"

definition lgetxattr ::
  "'st os_env \<Rightarrow> string \<Rightarrow> string \<Rightarrow> nat \<Rightarrow> event list \<Rightarrow> (errno + nat \<times> string) \<times> event list" where
  "lgetxattr env path attr bufsize tr =
     (xattr_answer (os_lgetxattr env path attr bufsize) bufsize, tr @ [Lgetxattr path attr bufsize])"

text \<open>
  \<^verbatim>\<open>listxattr (path, list, size)\<close> follows the same buffer rules; the list written is the
  names one after the other, each followed by a NUL.
\<close>

definition name_list :: "string list \<Rightarrow> string" where
  "name_list names = concat (map (\<lambda>n. n @ [CHR 0x00]) names)"

definition listxattr ::
  "'st os_env \<Rightarrow> string \<Rightarrow> nat \<Rightarrow> event list \<Rightarrow> (errno + nat \<times> string) \<times> event list" where
  "listxattr env path bufsize tr =
     (xattr_answer (map_sum id name_list (os_listxattr env path bufsize)) bufsize,
      tr @ [Listxattr path bufsize])"

definition llistxattr ::
  "'st os_env \<Rightarrow> string \<Rightarrow> nat \<Rightarrow> event list \<Rightarrow> (errno + nat \<times> string) \<times> event list" where
  "llistxattr env path bufsize tr =
     (xattr_answer (map_sum id name_list (os_llistxattr env path bufsize)) bufsize,
      tr @ [Llistxattr path bufsize])"

definition is_selinux_enabled :: "'st os_env \<Rightarrow> event list \<Rightarrow> int \<times> event list" where
  "is_selinux_enabled env tr = (os_is_selinux_enabled env, tr @ [Is_selinux_enabled])"

text \<open>
  The context calls return the context without its terminator; on success libselinux
  sets the context pointer to a string, never to \<^verbatim>\<open>NULL\<close>.
\<close>

definition getfilecon_raw :: "'st os_env \<Rightarrow> string \<Rightarrow> event list \<Rightarrow> (errno + string) \<times> event list" where
  "getfilecon_raw env path tr = (os_getfilecon_raw env path, tr @ [Getfilecon_raw path])"

definition lgetfilecon_raw :: "'st os_env \<Rightarrow> string \<Rightarrow> event list \<Rightarrow> (errno + string) \<times> event list" where
  "lgetfilecon_raw env path tr = (os_lgetfilecon_raw env path, tr @ [Lgetfilecon_raw path])"

definition fgetfilecon_raw :: "'st os_env \<Rightarrow> int \<Rightarrow> event list \<Rightarrow> (errno + string) \<times> event list" where
  "fgetfilecon_raw env fd tr = (os_fgetfilecon_raw env fd, tr @ [Fgetfilecon_raw fd])"

subsection \<open>The attribute bag and the matcher\<close>

text \<open>
  The request flags \<^verbatim>\<open>GFileInfoRequestFlags\<close> are a bit mask whose constants are declared
  in a header outside the source; a mask is the set of its flags. \<open>G_FILE_INFO_OTHER\<close>
  stands for the remaining bits, which \<^verbatim>\<open>g_file_info_set_from_stat\<close> reads.
\<close>

datatype request_flag =
    G_FILE_INFO_NAME
  | G_FILE_INFO_IS_HIDDEN
  | G_FILE_INFO_SYMLINK_TARGET
  | G_FILE_INFO_ACCESS_RIGHTS
  | G_FILE_INFO_DISPLAY_NAME
  | G_FILE_INFO_EDIT_NAME
  | G_FILE_INFO_MIME_TYPE
  | G_FILE_INFO_ICON
  | G_FILE_INFO_OTHER nat

text \<open>
  Modelled from the spec: the attribute bag \<^verbatim>\<open>GFileInfo\<close> and its setters
  (\<^verbatim>\<open>g_file_info_new\<close>, \<^verbatim>\<open>g_file_info_set_name\<close>, \<^verbatim>\<open>g_file_info_set_is_hidden\<close>,
  \<^verbatim>\<open>g_file_info_set_from_stat\<close>, \<^verbatim>\<open>g_file_info_set_symlink_target\<close>,
  \<^verbatim>\<open>g_file_info_set_attribute\<close>) are declared in a header outside the source. The bag
  maps keys to values and a key nobody set is absent; a string field set from a
  \<^verbatim>\<open>NULL\<close> pointer is absent too. The fields taken from \<^verbatim>\<open>struct stat\<close> are kept as
  the pair of the flags and the buffer they were taken from. A setter that receives a
  \<^verbatim>\<open>const char *\<close> stores the C string it points to.
\<close>

record 'st GFileInfo =
  fi_name :: "string option"
  fi_is_hidden :: "bool option"
  fi_symlink_target :: "string option"
  fi_from_stat :: "(request_flag set \<times> 'st) option"
  fi_attributes :: "string \<rightharpoonup> string"

definition g_file_info_new :: "'st GFileInfo" where
  "g_file_info_new =
     \<lparr>fi_name = None, fi_is_hidden = None, fi_symlink_target = None,
      fi_from_stat = None, fi_attributes = Map.empty\<rparr>"

definition g_file_info_set_name :: "'st GFileInfo \<Rightarrow> string option \<Rightarrow> 'st GFileInfo" where
  "g_file_info_set_name info name = info\<lparr>fi_name := name\<rparr>"

definition g_file_info_set_is_hidden :: "'st GFileInfo \<Rightarrow> bool \<Rightarrow> 'st GFileInfo" where
  "g_file_info_set_is_hidden info hidden = info\<lparr>fi_is_hidden := Some hidden\<rparr>"

definition g_file_info_set_from_stat ::
  "'st GFileInfo \<Rightarrow> request_flag set \<Rightarrow> 'st \<Rightarrow> 'st GFileInfo" where
  "g_file_info_set_from_stat info requested statbuf =
     info\<lparr>fi_from_stat := Some (requested, statbuf)\<rparr>"

definition g_file_info_set_symlink_target :: "'st GFileInfo \<Rightarrow> string option \<Rightarrow> 'st GFileInfo" where
  "g_file_info_set_symlink_target info link = info\<lparr>fi_symlink_target := map_option c_string link\<rparr>"

definition g_file_info_set_attribute :: "'st GFileInfo \<Rightarrow> string \<Rightarrow> string \<Rightarrow> 'st GFileInfo" where
  "g_file_info_set_attribute info attribute buf =
     info\<lparr>fi_attributes := (fi_attributes info)(attribute \<mapsto> c_string buf)\<rparr>"

text \<open>
  Modelled from the spec: the matcher \<^verbatim>\<open>GFileAttributeMatcher\<close> is declared in a header
  outside the source. It answers whether a key of a namespace is requested, whether a
  whole namespace is requested, and otherwise yields the explicitly named keys one by
  one (\<^verbatim>\<open>g_file_attribute_matcher_enumerate_next\<close>, \<^verbatim>\<open>NULL\<close> at the end). An absent
  matcher (\<^verbatim>\<open>NULL\<close>) matches nothing.
\<close>

record GFileAttributeMatcher =
  m_matches :: "string \<Rightarrow> string \<Rightarrow> bool"
  m_all :: "string \<Rightarrow> bool"
  m_keys :: "string \<Rightarrow> string list"

definition g_file_attribute_matcher_matches ::
  "GFileAttributeMatcher option \<Rightarrow> string \<Rightarrow> string \<Rightarrow> bool" where
  "g_file_attribute_matcher_matches matcher ns full_name =
     (case matcher of None \<Rightarrow> False | Some m \<Rightarrow> m_matches m ns full_name)"

definition g_file_attribute_matcher_enumerate :: "GFileAttributeMatcher option \<Rightarrow> string \<Rightarrow> bool" where
  "g_file_attribute_matcher_enumerate matcher ns =
     (case matcher of None \<Rightarrow> False | Some m \<Rightarrow> m_all m ns)"

definition enumerated_keys :: "GFileAttributeMatcher option \<Rightarrow> string \<Rightarrow> string list" where
  "enumerated_keys matcher ns = (case matcher of None \<Rightarrow> [] | Some m \<Rightarrow> m_keys m ns)"

subsection \<open>Errors\<close>

text \<open>
  The error a caller receives: \<^verbatim>\<open>g_set_error\<close> with domain \<^verbatim>\<open>G_FILE_ERROR\<close>, the code
  \<^verbatim>\<open>g_file_error_from_errno (errno)\<close> and a message naming the path, or the error that
  \<^verbatim>\<open>g_vfs_error_from_errno\<close> (declared in \<^verbatim>\<open>gvfserror.h\<close>) builds from \<^verbatim>\<open>errno\<close>.
\<close>

datatype GError =
    G_file_error_from_errno errno string
  | G_vfs_error_from_errno errno

subsection \<open>\<^verbatim>\<open>valid_char\<close> and \<^verbatim>\<open>escape_xattr\<close>\<close>

text \<open>
  The value of a \<^verbatim>\<open>char\<close> (signed, 8 bits) and of an \<^verbatim>\<open>unsigned char\<close> as an
  \<^verbatim>\<open>int\<close>. Where \<^verbatim>\<open>char\<close> is unsigned, \<^verbatim>\<open>valid_char\<close> accepts the same bytes.
\<close>

definition char_to_int :: "char \<Rightarrow> int" where
  "char_to_int c = (if (of_char c :: nat) < 128 then int (of_char c) else int (of_char c) - 256)"

definition uchar_to_int :: "char \<Rightarrow> int" where
  "uchar_to_int c = int (of_char c)"

definition valid_char :: "char \<Rightarrow> bool" where
  "valid_char c = (char_to_int c \<ge> 32 \<and> char_to_int c \<le> 126 \<and> c \<noteq> CHR 0x5C)"

definition hex_digits :: string where
  "hex_digits = ''0123456789abcdef''"

text \<open>The first loop of \<^verbatim>\<open>escape_xattr\<close>: count the invalid bytes of \<open>value[0..len)\<close>.\<close>

fun count_invalid :: "string \<Rightarrow> nat \<Rightarrow> nat" where
  "count_invalid [] num_invalid = num_invalid"
| "count_invalid (c # cs) num_invalid =
     count_invalid cs (if \<not> valid_char c then num_invalid + 1 else num_invalid)"

text \<open>The four bytes written for an invalid byte \<open>c\<close> (\<^verbatim>\<open>unsigned char c\<close> is promoted to \<^verbatim>\<open>int\<close>).\<close>

definition escape_sequence :: "char \<Rightarrow> string" where
  "escape_sequence ch =
     (let c = uchar_to_int ch in
      [CHR 0x5C, CHR ''x'',
       hex_digits ! nat (drop_bit 8 c AND 0xf),
       hex_digits ! nat (c AND 0xf)])"

text \<open>The second loop: \<open>out\<close> is what has been written through \<open>p\<close> so far.\<close>

fun escape_loop :: "string \<Rightarrow> string \<Rightarrow> string" where
  "escape_loop [] out = out"
| "escape_loop (c # cs) out =
     escape_loop cs (if valid_char c then out @ [c] else out @ escape_sequence c)"

text \<open>
  \<open>val\<close> is \<open>value[0..len)\<close>; the byte after it is the terminator, so the buffer that
  \<^verbatim>\<open>g_file_info_set_attribute\<close> receives is \<open>val @ [NUL]\<close>.
\<close>

definition escape_xattr ::
  "'st GFileInfo \<Rightarrow> string \<Rightarrow> string \<Rightarrow> event list \<Rightarrow> 'st GFileInfo \<times> event list" where
  "escape_xattr info attr val tr =
     (let full_attr = ''xattr:'' @ attr;
          len = length val;
          num_invalid = count_invalid val 0
      in if num_invalid = 0 then
           (g_file_info_set_attribute info full_attr (val @ [CHR 0x00]), tr)
         else
           let tr1 = tr @ [G_malloc (len + num_invalid * 3 + 1)];
               escaped_val = escape_loop val [] @ [CHR 0x00]
           in (g_file_info_set_attribute info full_attr escaped_val, tr1))"

subsection \<open>\<^verbatim>\<open>read_link\<close>\<close>

text \<open>
  \<open>bufsize\<close> is the \<^verbatim>\<open>guint size\<close> (32 bits: doubling wraps around) and \<open>read_size\<close>
  the \<^verbatim>\<open>int\<close> that receives the result of \<^verbatim>\<open>readlink\<close>: a count of \<open>2 ^ 31\<close> or
  more is negative there. The loop has no bound of its own, so the function is partial:
  \<open>None\<close> is a loop that never returns. The inner result is the buffer returned
  (with its terminator), or \<open>None\<close> for \<^verbatim>\<open>NULL\<close>.
\<close>

partial_function (option) read_link_loop ::
  "'st os_env \<Rightarrow> string \<Rightarrow> nat \<Rightarrow> event list \<Rightarrow> (string option \<times> event list) option" where
  "read_link_loop env full_name bufsize tr =
     (case readlink env full_name bufsize tr of
        (Inl e, tr1) \<Rightarrow> Some (None, tr1)
      | (Inr buffer, tr1) \<Rightarrow>
          let read_size = length buffer in
          if 2 ^ 31 \<le> read_size then Some (None, tr1)
          else if read_size < bufsize then Some (Some (buffer @ [CHR 0x00]), tr1)
          else read_link_loop env full_name (bufsize * 2 mod 2 ^ 32)
                 (tr1 @ [G_realloc (bufsize * 2 mod 2 ^ 32)]))"

definition read_link ::
  "'st os_env \<Rightarrow> string \<Rightarrow> event list \<Rightarrow> (string option \<times> event list) option" where
  "read_link env full_name tr = read_link_loop env full_name 256 (tr @ [G_malloc 256])"

subsection \<open>\<^verbatim>\<open>get_selinux_context\<close>\<close>

definition get_selinux_context ::
  "'st os_env \<Rightarrow> string \<Rightarrow> 'st GFileInfo \<Rightarrow> GFileAttributeMatcher option \<Rightarrow> bool \<Rightarrow> event list
   \<Rightarrow> 'st GFileInfo \<times> event list" where
  "get_selinux_context env path info attribute_matcher follow_symlinks tr =
     (if \<not> HAVE_SELINUX env then (info, tr)
      else if \<not> g_file_attribute_matcher_matches attribute_matcher ''selinux'' ''selinux:context''
      then (info, tr)
      else
        case is_selinux_enabled env tr of
          (enabled, tr1) \<Rightarrow>
            if enabled \<noteq> 0 then
              (case (if follow_symlinks then lgetfilecon_raw env path tr1
                     else getfilecon_raw env path tr1) of
                 (Inl e, tr2) \<Rightarrow> (info, tr2)
               | (Inr context, tr2) \<Rightarrow>
                   (g_file_info_set_attribute info ''selinux:context'' (context @ [CHR 0x00]), tr2))
            else (info, tr1))"

subsection \<open>\<^verbatim>\<open>get_one_xattr\<close> and \<^verbatim>\<open>get_xattrs\<close>\<close>

text \<open>
  The stack buffer has 64 bytes and the first call passes \<open>sizeof (value) - 1 = 63\<close>.
  \<^verbatim>\<open>escape_xattr\<close> receives the first \<open>len\<close> bytes of the buffer that was written.
\<close>

definition get_one_xattr ::
  "'st os_env \<Rightarrow> string \<Rightarrow> 'st GFileInfo \<Rightarrow> string \<Rightarrow> bool \<Rightarrow> event list
   \<Rightarrow> 'st GFileInfo \<times> event list" where
  "get_one_xattr env path info attr follow_symlinks tr =
     (case (if follow_symlinks then getxattr env path attr 63 tr
            else lgetxattr env path attr 63 tr) of
        (Inr (len, val), tr1) \<Rightarrow> escape_xattr info attr (take len val) tr1
      | (Inl e, tr1) \<Rightarrow>
          if e = ERANGE then
            (case (if follow_symlinks then getxattr env path attr 0 tr1
                   else lgetxattr env path attr 0 tr1) of
               (Inl e2, tr2) \<Rightarrow> (info, tr2)
             | (Inr (len, unused), tr2) \<Rightarrow>
                 (case (if follow_symlinks then getxattr env path attr len (tr2 @ [G_malloc (len + 1)])
                        else lgetxattr env path attr len (tr2 @ [G_malloc (len + 1)])) of
                    (Inl e3, tr3) \<Rightarrow> (info, tr3)
                  | (Inr (len3, val), tr3) \<Rightarrow> escape_xattr info attr (take len3 val) tr3))
          else (info, tr1))"

text \<open>
  The walk over the list that \<^verbatim>\<open>listxattr\<close> wrote: \<open>buf\<close> is the buffer from the
  pointer \<open>attr\<close> on, \<open>list_res_size\<close> the (signed) number of bytes left.
\<close>

function xattr_walk ::
  "'st os_env \<Rightarrow> string \<Rightarrow> 'st GFileInfo \<Rightarrow> string \<Rightarrow> int \<Rightarrow> bool \<Rightarrow> event list
   \<Rightarrow> 'st GFileInfo \<times> event list" where
  "xattr_walk env path info buf list_res_size follow_symlinks tr =
     (if list_res_size > 0 then
        case get_one_xattr env path info (c_string buf) follow_symlinks tr of
          (info1, tr1) \<Rightarrow>
            let len = length (c_string buf) + 1
            in xattr_walk env path info1 (drop len buf) (list_res_size - int len) follow_symlinks tr1
      else (info, tr))"
  by pat_completeness auto
termination
  by (relation "measure (\<lambda>(env, path, info, buf, list_res_size, follow_symlinks, tr). nat list_res_size)")
    auto

declare xattr_walk.simps [simp del]

text \<open>
  The code from the label \<^verbatim>\<open>retry\<close> on; \<open>list_size\<close> is a \<^verbatim>\<open>gsize\<close> (64 bits). The
  jump back has no bound of its own, so \<open>None\<close> is a call that never returns.
\<close>

partial_function (option) get_xattrs_retry ::
  "'st os_env \<Rightarrow> string \<Rightarrow> 'st GFileInfo \<Rightarrow> bool \<Rightarrow> nat \<Rightarrow> event list
   \<Rightarrow> ('st GFileInfo \<times> event list) option" where
  "get_xattrs_retry env path info follow_symlinks list_size tr =
     (case (if follow_symlinks then listxattr env path list_size tr
            else llistxattr env path list_size tr) of
        (Inl e, tr1) \<Rightarrow>
          if e = ERANGE then
            get_xattrs_retry env path info follow_symlinks (list_size * 2 mod 2 ^ 64)
              (tr1 @ [G_realloc (list_size * 2 mod 2 ^ 64)])
          else Some (info, tr1)
      | (Inr (list_res_size, lst), tr1) \<Rightarrow>
          Some (xattr_walk env path info lst (int list_res_size) follow_symlinks tr1))"

text \<open>The loop over \<^verbatim>\<open>g_file_attribute_matcher_enumerate_next\<close>.\<close>

fun get_named_xattrs ::
  "'st os_env \<Rightarrow> string \<Rightarrow> 'st GFileInfo \<Rightarrow> string list \<Rightarrow> bool \<Rightarrow> event list
   \<Rightarrow> 'st GFileInfo \<times> event list" where
  "get_named_xattrs env path info [] follow_symlinks tr = (info, tr)"
| "get_named_xattrs env path info (attr # attrs) follow_symlinks tr =
     (case get_one_xattr env path info attr follow_symlinks tr of
        (info1, tr1) \<Rightarrow> get_named_xattrs env path info1 attrs follow_symlinks tr1)"

definition get_xattrs ::
  "'st os_env \<Rightarrow> string \<Rightarrow> 'st GFileInfo \<Rightarrow> GFileAttributeMatcher option \<Rightarrow> bool \<Rightarrow> event list
   \<Rightarrow> ('st GFileInfo \<times> event list) option" where
  "get_xattrs env path info matcher follow_symlinks tr =
     (if g_file_attribute_matcher_enumerate matcher ''xattr'' then
        (case (if follow_symlinks then listxattr env path 0 tr
               else llistxattr env path 0 tr) of
           (Inl e, tr1) \<Rightarrow> Some (info, tr1)
         | (Inr (list_res_size, unused), tr1) \<Rightarrow>
             if list_res_size = 0 then Some (info, tr1)
             else get_xattrs_retry env path info follow_symlinks list_res_size
                    (tr1 @ [G_malloc list_res_size]))
      else
        Some (get_named_xattrs env path info (enumerated_keys matcher ''xattr'') follow_symlinks tr))"

subsection \<open>The entry points\<close>

text \<open>
  \<open>basename[0]\<close> of a string that is not \<^verbatim>\<open>NULL\<close>: its first byte, the terminator when
  the string is empty.
\<close>

definition first_char :: "string \<Rightarrow> char" where
  "first_char s = hd (s @ [CHR 0x00])"

text \<open>
  The path entry point. The error of a failed \<^verbatim>\<open>stat\<close> carries the \<^verbatim>\<open>errno\<close> of that
  call: \<^verbatim>\<open>g_object_unref\<close>, which runs before \<^verbatim>\<open>errno\<close> is read, is taken to leave it
  alone. The branches for access rights, display name, edit name, MIME type and icon are
  empty in the source and add nothing.
\<close>

definition g_file_info_simple_get ::
  "'st os_env \<Rightarrow> string option \<Rightarrow> string \<Rightarrow> request_flag set \<Rightarrow> GFileAttributeMatcher option
   \<Rightarrow> bool \<Rightarrow> event list \<Rightarrow> ((GError + 'st GFileInfo) \<times> event list) option" where
  "g_file_info_simple_get env basename path requested attribute_matcher follow_symlinks tr =
     (let info0 = g_file_info_new;
          info1 = (if G_FILE_INFO_NAME \<in> requested then g_file_info_set_name info0 basename
                   else info0);
          info2 = (if G_FILE_INFO_IS_HIDDEN \<in> requested then
                     g_file_info_set_is_hidden info1
                       (case basename of None \<Rightarrow> False | Some b \<Rightarrow> first_char b = CHR ''.'')
                   else info1)
      in if requested - {G_FILE_INFO_NAME, G_FILE_INFO_IS_HIDDEN} = {} \<and> attribute_matcher = None
         then Some (Inr info2, tr)
         else
           case (if follow_symlinks then stat env path tr else lstat env path tr) of
             (Inl e, tr1) \<Rightarrow> Some (Inl (G_file_error_from_errno e path), tr1)
           | (Inr statbuf, tr1) \<Rightarrow>
               let info3 = g_file_info_set_from_stat info2 requested statbuf in
               Option.bind
                 (if G_FILE_INFO_SYMLINK_TARGET \<in> requested then
                    Option.bind (read_link env path tr1)
                      (\<lambda>(link, tr2). Some (g_file_info_set_symlink_target info3 link, tr2))
                  else Some (info3, tr1))
                 (\<lambda>(info4, tr2).
                    case get_selinux_context env path info4 attribute_matcher follow_symlinks tr2 of
                      (info5, tr3) \<Rightarrow>
                        Option.bind (get_xattrs env path info5 attribute_matcher follow_symlinks tr3)
                          (\<lambda>(info6, tr4). Some (Inr info6, tr4))))"

text \<open>
  The descriptor entry point; \<open>matcher_new\<close> is \<^verbatim>\<open>g_file_attribute_matcher_new\<close>, which
  parses the attribute string and is declared outside the source.
\<close>

definition g_file_info_simple_get_from_fd ::
  "'st os_env \<Rightarrow> (string option \<Rightarrow> GFileAttributeMatcher option) \<Rightarrow> int \<Rightarrow> request_flag set
   \<Rightarrow> string option \<Rightarrow> event list \<Rightarrow> (GError + 'st GFileInfo) \<times> event list" where
  "g_file_info_simple_get_from_fd env matcher_new fd requested attributes tr =
     (case fstat env fd tr of
        (Inl e, tr1) \<Rightarrow> (Inl (G_vfs_error_from_errno e), tr1)
      | (Inr stat_buf, tr1) \<Rightarrow>
          let info = g_file_info_set_from_stat g_file_info_new requested stat_buf;
              matcher = matcher_new attributes
          in if HAVE_SELINUX env then
               (if g_file_attribute_matcher_matches matcher ''selinux'' ''selinux:context'' then
                  (case is_selinux_enabled env tr1 of
                     (enabled, tr2) \<Rightarrow>
                       if enabled \<noteq> 0 then
                         (case fgetfilecon_raw env fd tr2 of
                            (Inl e2, tr3) \<Rightarrow> (Inr info, tr3)
                          | (Inr context, tr3) \<Rightarrow>
                              (Inr (g_file_info_set_attribute info ''selinux:context''
                                      (context @ [CHR 0x00])), tr3))
                       else (Inr info, tr2))
                else (Inr info, tr1))
             else (Inr info, tr1))"

subsection \<open>The encoding in the words of the specification\<close>

text \<open>
  The escape sequence of a byte as the specification words it: the escape character,
  \<open>x\<close>, and the hex digit of the low nibble of the byte, twice.
\<close>

definition low_nibble_twice :: "char \<Rightarrow> string" where
  "low_nibble_twice ch =
     [CHR 0x5C, CHR ''x'',
      hex_digits ! nat (uchar_to_int ch AND 0xf),
      hex_digits ! nat (uchar_to_int ch AND 0xf)]"

subsection \<open>Notions used in the statements\<close>

text \<open>Two bags that agree on every field but the attributes set by \<^verbatim>\<open>g_file_info_set_attribute\<close>.\<close>

definition only_attributes_differ :: "'st GFileInfo \<Rightarrow> 'st GFileInfo \<Rightarrow> bool" where
  "only_attributes_differ info info' =
     (fi_name info' = fi_name info \<and> fi_is_hidden info' = fi_is_hidden info \<and>
      fi_symlink_target info' = fi_symlink_target info \<and> fi_from_stat info' = fi_from_stat info)"

text \<open>
  The trace of \<open>k\<close> attempts of \<^verbatim>\<open>read_link\<close> that filled their buffer, the first with a
  buffer of \<open>256 * 2 ^ j\<close> bytes: each is a \<^verbatim>\<open>readlink\<close> followed by the \<^verbatim>\<open>g_realloc\<close>
  to twice the size.
\<close>

fun doubling_events :: "string \<Rightarrow> nat \<Rightarrow> nat \<Rightarrow> event list" where
  "doubling_events path j 0 = []"
| "doubling_events path j (Suc k) =
     [Readlink path (256 * 2 ^ j), G_realloc (256 * 2 ^ Suc j)] @ doubling_events path (Suc j) k"

subsection \<open>An example system\<close>

text \<open>
  A system on which the theorems below are instantiated: \<open>/missing\<close> does not exist,
  \<open>/link\<close> is a symbolic link to a name of 300 bytes, every other path is a file with
  the attributes \<open>user.small\<close> (one byte) and \<open>user.big\<close> (64 bytes), of which only the
  first is listed; descriptor 3 is open.
\<close>

definition example_env :: "unit os_env" where
  "example_env =
     \<lparr>HAVE_SELINUX = True,
      os_stat = (\<lambda>p. if p = ''/missing'' then Inl ENOENT else Inr ()),
      os_lstat = (\<lambda>p. if p = ''/missing'' then Inl ENOENT else Inr ()),
      os_fstat = (\<lambda>fd. if fd = 3 then Inr () else Inl EBADF),
      os_readlink = (\<lambda>p n. if p = ''/link'' then Inr (replicate 300 (CHR ''a'')) else Inl EINVAL),
      os_getxattr = (\<lambda>p a n. if a = ''user.big'' then Inr (replicate 64 (CHR ''b''))
                                else if a = ''user.small'' then Inr ''v'' else Inl ENODATA),
      os_lgetxattr = (\<lambda>p a n. if a = ''user.big'' then Inr (replicate 64 (CHR ''b''))
                                 else if a = ''user.small'' then Inr ''v'' else Inl ENODATA),
      os_listxattr = (\<lambda>p n. Inr [''user.small'']),
      os_llistxattr = (\<lambda>p n. Inr [''user.small'']),
      os_is_selinux_enabled = 1,
      os_getfilecon_raw = (\<lambda>p. Inr ''system_u:object_r:etc_t''),
      os_lgetfilecon_raw = (\<lambda>p. Inr ''system_u:object_r:etc_t''),
      os_fgetfilecon_raw = (\<lambda>fd. Inr ''system_u:object_r:etc_t'')\<rparr>"

text \<open>A matcher that requests the namespace \<open>selinux\<close> and nothing else.\<close>

definition selinux_matcher :: GFileAttributeMatcher where
  "selinux_matcher =
     \<lparr>m_matches = (\<lambda>ns k. ns = ''selinux''), m_all = (\<lambda>ns. False), m_keys = (\<lambda>ns. [])\<rparr>"

section \<open>Properties\<close>

subsection \<open>Escaping\<close>

lemma valid_char_unsigned:
  "valid_char c \<longleftrightarrow> 32 \<le> (of_char c :: nat) \<and> (of_char c :: nat) \<le> 126 \<and> c \<noteq> CHR 0x5C"
  using nat_of_char_less_256 [of c]
  by (auto simp: valid_char_def char_to_int_def simp del: nat_of_char_less_256)

lemma valid_char_not_NUL: "valid_char c \<Longrightarrow> c \<noteq> CHR 0x00"
  by (auto simp: valid_char_def char_to_int_def)

lemma count_invalid_eq:
  "count_invalid cs n = n + length (filter (\<lambda>c. \<not> valid_char c) cs)"
  by (induction cs arbitrary: n) auto

lemma count_invalid_zero_iff: "count_invalid cs 0 = 0 \<longleftrightarrow> (\<forall>c \<in> set cs. valid_char c)"
  by (simp add: count_invalid_eq filter_empty_conv)

lemma escape_loop_eq:
  "escape_loop cs out = out @ concat (map (\<lambda>c. if valid_char c then [c] else escape_sequence c) cs)"
  by (induction cs arbitrary: out) auto

lemma c_string_terminated: "CHR 0x00 \<notin> set s \<Longrightarrow> c_string (s @ [CHR 0x00]) = s"
  by (induction s) (auto simp: c_string_def)

lemma uchar_high_nibble: "drop_bit 8 (uchar_to_int c) AND 0xf = 0"
proof -
  have "(of_char c :: nat) < 256" by simp
  then have "drop_bit 8 (int (of_char c)) = 0"
    by (simp add: drop_bit_eq_div)
  then show ?thesis by (simp add: uchar_to_int_def)
qed

lemma low_nibble_bound: "nat (uchar_to_int c AND 0xf) < 16"
proof -
  have "uchar_to_int c AND 0xf \<le> 0xf"
    by (rule AND_upper2) simp
  moreover have "nat (uchar_to_int c AND 0xf) \<le> nat 0xf"
    using calculation by (rule nat_mono)
  ultimately show ?thesis by simp
qed

lemma hex_digits_not_NUL: "k < 16 \<Longrightarrow> hex_digits ! k \<noteq> CHR 0x00"
proof -
  assume "k < 16"
  then have "hex_digits ! k \<in> set hex_digits" by (intro nth_mem) (simp add: hex_digits_def)
  then show ?thesis by (auto simp: hex_digits_def)
qed

lemma escape_sequence_eq:
  "escape_sequence c = [CHR 0x5C, CHR ''x'', CHR ''0'', hex_digits ! nat (uchar_to_int c AND 0xf)]"
  using uchar_high_nibble [of c] by (simp add: escape_sequence_def Let_def hex_digits_def)

lemma escape_sequence_not_NUL: "CHR 0x00 \<notin> set (escape_sequence c)"
  using hex_digits_not_NUL [OF low_nibble_bound, of c] by (auto simp: escape_sequence_eq)

lemma escaped_not_NUL:
  "CHR 0x00 \<notin> set (concat (map (\<lambda>c. if valid_char c then [c] else escape_sequence c) cs))"
  using escape_sequence_not_NUL valid_char_not_NUL by (induction cs) auto

lemma escape_xattr_stored:
  "escape_xattr info attr val tr =
     (info\<lparr>fi_attributes := (fi_attributes info)(''xattr:'' @ attr \<mapsto>
         concat (map (\<lambda>c. if valid_char c then [c] else escape_sequence c) val))\<rparr>,
      if \<forall>c \<in> set val. valid_char c then tr
      else tr @ [G_malloc (length val + 3 * length (filter (\<lambda>c. \<not> valid_char c) val) + 1)])"
proof (cases "\<forall>c \<in> set val. valid_char c")
  case True
  then have "concat (map (\<lambda>c. if valid_char c then [c] else escape_sequence c) val) = val"
    by (induction val) auto
  moreover have "CHR 0x00 \<notin> set val" using True valid_char_not_NUL by blast
  ultimately show ?thesis using True
    by (simp add: escape_xattr_def count_invalid_zero_iff g_file_info_set_attribute_def
        c_string_terminated)
next
  case False
  then have "count_invalid val 0 \<noteq> 0" by (simp add: count_invalid_zero_iff)
  moreover have "c_string (concat (map (\<lambda>c. if valid_char c then [c] else escape_sequence c) val)
      @ [CHR 0x00]) = concat (map (\<lambda>c. if valid_char c then [c] else escape_sequence c) val)"
    by (rule c_string_terminated [OF escaped_not_NUL])
  ultimately show ?thesis using False
    by (simp add: escape_xattr_def Let_def g_file_info_set_attribute_def escape_loop_eq
        count_invalid_eq)
qed

text \<open>
  C1. If every byte of the value lies in 32..126 and is not the escape character (backslash),
  \<^verbatim>\<open>escape_xattr\<close> hands the input buffer itself to \<^verbatim>\<open>g_file_info_set_attribute\<close>, the
  attribute \<open>xattr:<attr>\<close> holds the value unchanged, and the trace is unchanged: no
  buffer for an escaped copy is allocated.
\<close>

theorem escape_xattr_verbatim:
  assumes "\<forall>c \<in> set val. 32 \<le> (of_char c :: nat) \<and> (of_char c :: nat) \<le> 126 \<and> c \<noteq> CHR 0x5C"
  shows "escape_xattr info attr val tr =
           (g_file_info_set_attribute info (''xattr:'' @ attr) (val @ [CHR 0x00]), tr) \<and>
         fi_attributes (fst (escape_xattr info attr val tr)) (''xattr:'' @ attr) = Some val"
proof -
  from assms have valid: "\<forall>c \<in> set val. valid_char c"
    by (simp add: valid_char_unsigned)
  then have "concat (map (\<lambda>c. if valid_char c then [c] else escape_sequence c) val) = val"
    by (induction val) auto
  then have stored: "fi_attributes (fst (escape_xattr info attr val tr)) (''xattr:'' @ attr) = Some val"
    by (simp add: escape_xattr_stored)
  from valid have "count_invalid val 0 = 0"
    by (simp add: count_invalid_zero_iff)
  then have "escape_xattr info attr val tr =
      (g_file_info_set_attribute info (''xattr:'' @ attr) (val @ [CHR 0x00]), tr)"
    by (simp add: escape_xattr_def)
  with stored show ?thesis by simp
qed

theorem escape_xattr_verbatim_witness:
  "escape_xattr (g_file_info_new :: unit GFileInfo) ''user.a'' ''hello'' [] =
     (g_file_info_new\<lparr>fi_attributes := [''xattr:user.a'' \<mapsto> ''hello'']\<rparr>, [])"
  using escape_xattr_verbatim [of "''hello''" "g_file_info_new :: unit GFileInfo" "''user.a''" "[]"]
  by (simp add: g_file_info_set_attribute_def g_file_info_new_def c_string_def)

text \<open>
  C2, as amended. For every value, the attribute stored by \<^verbatim>\<open>escape_xattr\<close> is the value
  with every safe byte (32..126, not the backslash) copied and every other byte \<open>c\<close>
  replaced by four bytes: the backslash, \<open>x\<close>, the hex digit of \<open>(c >> 8) & 0xF\<close> and the
  hex digit of \<open>c & 0xF\<close>. The first digit is not the low nibble of the byte.
\<close>

theorem escape_xattr_encoding:
  "fi_attributes (fst (escape_xattr info attr val tr)) (''xattr:'' @ attr) =
     Some (concat (map (\<lambda>c.
        if 32 \<le> (of_char c :: nat) \<and> (of_char c :: nat) \<le> 126 \<and> c \<noteq> CHR 0x5C then [c]
        else [CHR 0x5C, CHR ''x'',
              hex_digits ! nat (drop_bit 8 (int (of_char c)) AND 0xf),
              hex_digits ! nat (int (of_char c) AND 0xf)]) val))"
  by (simp add: escape_xattr_stored valid_char_unsigned escape_sequence_def uchar_to_int_def
      Let_def cong: if_cong)

theorem escape_xattr_encoding_witness:
  "fi_attributes (fst (escape_xattr (g_file_info_new :: unit GFileInfo) ''user.k''
      [CHR ''a'', CHR 0x1F, CHR 0x5C, CHR 0xFF] [])) ''xattr:user.k'' =
     Some [CHR ''a'', CHR 0x5C, CHR ''x'', CHR ''0'', CHR ''f'', CHR 0x5C, CHR ''x'', CHR ''0'', CHR ''c'',
           CHR 0x5C, CHR ''x'', CHR ''0'', CHR ''f'']"
  using escape_xattr_encoding [of "g_file_info_new :: unit GFileInfo" "''user.k''"
      "[CHR ''a'', CHR 0x1F, CHR 0x5C, CHR 0xFF]" "[]"]
  by (simp add: hex_digits_def)

text \<open>
  C2, as stated, fails: the byte \<open>0x1F\<close> is stored as \<open>\x0f\<close>, not as the low nibble
  twice (\<open>\xff\<close>).
\<close>

theorem escape_low_nibble_twice_counterexample:
  "fi_attributes (fst (escape_xattr (g_file_info_new :: unit GFileInfo) ''user.k'' [CHR 0x1F] []))
     ''xattr:user.k'' \<noteq> Some (low_nibble_twice (CHR 0x1F))"
  by (simp add: escape_xattr_stored valid_char_unsigned escape_sequence_eq low_nibble_twice_def
      uchar_to_int_def hex_digits_def)

text \<open>
  C9. For every unsafe byte \<open>c\<close> the stored escape sequence is the backslash, \<open>x\<close>,
  \<open>0\<close> and the hex digit of \<open>c & 0xF\<close>; the bytes \<open>0x01\<close> and \<open>0x11\<close>, which differ
  in the high nibble only, give the same result, so \<^verbatim>\<open>escape_xattr\<close> is not injective
  in the value.
\<close>

theorem escape_xattr_not_injective:
  "(\<not> valid_char c \<longrightarrow>
      fi_attributes (fst (escape_xattr info attr [c] tr)) (''xattr:'' @ attr) =
        Some [CHR 0x5C, CHR ''x'', CHR ''0'', hex_digits ! nat (uchar_to_int c AND 0xf)]) \<and>
   escape_xattr info attr [CHR 0x01] tr = escape_xattr info attr [CHR 0x11] tr \<and>
   \<not> inj (\<lambda>val. escape_xattr info attr val tr)"
proof -
  have same: "escape_xattr info attr [CHR 0x01] tr = escape_xattr info attr [CHR 0x11] tr"
    by (simp add: escape_xattr_stored valid_char_unsigned escape_sequence_eq uchar_to_int_def)
  have "\<not> inj (\<lambda>val. escape_xattr info attr val tr)"
  proof
    assume "inj (\<lambda>val. escape_xattr info attr val tr)"
    from injD [OF this same] show False by simp
  qed
  with same show ?thesis by (simp add: escape_xattr_stored escape_sequence_eq)
qed

theorem escape_xattr_not_injective_witness:
  "\<not> valid_char (CHR 0xFF) \<and>
   fi_attributes (fst (escape_xattr (g_file_info_new :: unit GFileInfo) ''user.k'' [CHR 0xFF] []))
     ''xattr:user.k'' = Some [CHR 0x5C, CHR ''x'', CHR ''0'', CHR ''f'']"
  using escape_xattr_not_injective [of "CHR 0xFF" "g_file_info_new :: unit GFileInfo" "''user.k''" "[]"]
  by (simp add: valid_char_unsigned uchar_to_int_def hex_digits_def)

subsection \<open>The path entry point\<close>

text \<open>
  C3. When no flag other than name and is-hidden is requested and the matcher is absent,
  \<^verbatim>\<open>g_file_info_simple_get\<close> returns with the trace unchanged (no call of the operating
  system at all), and the bag holds the name and the is-hidden entry as requested and
  nothing else.
\<close>

theorem simple_get_fast_path:
  assumes "requested \<subseteq> {G_FILE_INFO_NAME, G_FILE_INFO_IS_HIDDEN}"
  shows "g_file_info_simple_get env basename path requested None follow_symlinks tr =
           Some (Inr \<lparr>fi_name = (if G_FILE_INFO_NAME \<in> requested then basename else None),
                      fi_is_hidden = (if G_FILE_INFO_IS_HIDDEN \<in> requested
                                      then Some (case basename of None \<Rightarrow> False
                                                 | Some b \<Rightarrow> first_char b = CHR ''.'')
                                      else None),
                      fi_symlink_target = None, fi_from_stat = None,
                      fi_attributes = Map.empty\<rparr>, tr)"
proof -
  from assms have "requested - {G_FILE_INFO_NAME, G_FILE_INFO_IS_HIDDEN} = {}" by blast
  then show ?thesis
    by (simp add: g_file_info_simple_get_def g_file_info_new_def g_file_info_set_name_def
        g_file_info_set_is_hidden_def)
qed

theorem simple_get_fast_path_witness:
  "{G_FILE_INFO_NAME, G_FILE_INFO_IS_HIDDEN} \<subseteq> {G_FILE_INFO_NAME, G_FILE_INFO_IS_HIDDEN} \<and>
   g_file_info_simple_get example_env (Some ''.profile'') ''/home/u/.profile''
       {G_FILE_INFO_NAME, G_FILE_INFO_IS_HIDDEN} None True [] =
     Some (Inr \<lparr>fi_name = Some ''.profile'', fi_is_hidden = Some True, fi_symlink_target = None,
                fi_from_stat = None, fi_attributes = Map.empty\<rparr>, [])"
  using simple_get_fast_path [of "{G_FILE_INFO_NAME, G_FILE_INFO_IS_HIDDEN}" example_env
      "Some ''.profile''" "''/home/u/.profile''" True "[]"]
  by (simp add: first_char_def)

text \<open>
  C4. When the primary metadata call fails (\<^verbatim>\<open>stat\<close> or \<^verbatim>\<open>lstat\<close> for the path entry
  point outside the trivial case, \<^verbatim>\<open>fstat\<close> for the descriptor entry point), the result
  is an error built from the \<^verbatim>\<open>errno\<close> of that call and no bag; the failed call is the
  only one made.
\<close>

theorem primary_stat_failure:
  "((requested - {G_FILE_INFO_NAME, G_FILE_INFO_IS_HIDDEN} \<noteq> {} \<or> attribute_matcher \<noteq> None) \<and>
    (if follow_symlinks then os_stat env path else os_lstat env path) = Inl e \<longrightarrow>
      g_file_info_simple_get env basename path requested attribute_matcher follow_symlinks tr =
        Some (Inl (G_file_error_from_errno e path),
              tr @ [if follow_symlinks then Stat path else Lstat path])) \<and>
   (os_fstat env fd = Inl e' \<longrightarrow>
      g_file_info_simple_get_from_fd env matcher_new fd requested' attributes tr' =
        (Inl (G_vfs_error_from_errno e'), tr' @ [Fstat fd]))"
  by (auto simp: g_file_info_simple_get_def g_file_info_simple_get_from_fd_def stat_def lstat_def
      fstat_def Let_def)

theorem primary_stat_failure_witness:
  "g_file_info_simple_get example_env (Some ''missing'') ''/missing'' {G_FILE_INFO_OTHER 0} None True [] =
     Some (Inl (G_file_error_from_errno ENOENT ''/missing''), [Stat ''/missing'']) \<and>
   g_file_info_simple_get_from_fd example_env (\<lambda>a. None) 7 {G_FILE_INFO_OTHER 0} None [] =
     (Inl (G_vfs_error_from_errno EBADF), [Fstat 7])"
  using primary_stat_failure [of "{G_FILE_INFO_OTHER 0}" None True example_env "''/missing''" ENOENT
      "Some ''missing''" "[]" 7 EBADF "\<lambda>a. None" "{G_FILE_INFO_OTHER 0}" None "[]"]
  by (simp add: example_env_def)

subsection \<open>What the collectors leave unchanged, and when they return\<close>

lemma only_attributes_differ_refl [simp]: "only_attributes_differ info info"
  by (simp add: only_attributes_differ_def)

lemma only_attributes_differ_trans:
  "only_attributes_differ a b \<Longrightarrow> only_attributes_differ b c \<Longrightarrow> only_attributes_differ a c"
  by (simp add: only_attributes_differ_def)

lemma set_attribute_frame [simp]:
  "only_attributes_differ info (g_file_info_set_attribute info k v)"
  by (simp add: only_attributes_differ_def g_file_info_set_attribute_def)

lemma escape_xattr_frame: "only_attributes_differ info (fst (escape_xattr info attr val tr))"
  by (simp add: escape_xattr_def Let_def)

lemma get_one_xattr_frame:
  "only_attributes_differ info (fst (get_one_xattr env path info attr follow_symlinks tr))"
  by (auto simp: get_one_xattr_def escape_xattr_frame split: prod.splits sum.splits)

lemma xattr_walk_frame:
  "only_attributes_differ info (fst (xattr_walk env path info buf n follow_symlinks tr))"
proof (induction env path info buf n follow_symlinks tr rule: xattr_walk.induct)
  case (1 env path info buf list_res_size follow_symlinks tr)
  show ?case
  proof (cases "list_res_size > 0")
    case False
    then show ?thesis by (subst xattr_walk.simps) simp
  next
    case True
    obtain info1 tr1 where g: "get_one_xattr env path info (c_string buf) follow_symlinks tr = (info1, tr1)"
      by (cases "get_one_xattr env path info (c_string buf) follow_symlinks tr")
    have a: "only_attributes_differ info info1"
      using get_one_xattr_frame [of info env path "c_string buf" follow_symlinks tr] g by simp
    have b: "only_attributes_differ info1
        (fst (xattr_walk env path info1 (drop (length (c_string buf) + 1) buf)
               (list_res_size - int (length (c_string buf) + 1)) follow_symlinks tr1))"
      using "1.IH" [OF True g [symmetric] refl] by simp
    show ?thesis
      using True g only_attributes_differ_trans [OF a b]
      by (subst xattr_walk.simps) (simp add: Let_def)
  qed
qed

lemma get_named_xattrs_frame:
  "only_attributes_differ info (fst (get_named_xattrs env path info attrs follow_symlinks tr))"
proof (induction attrs arbitrary: info tr)
  case Nil
  show ?case by simp
next
  case (Cons attr attrs)
  obtain info1 tr1 where g: "get_one_xattr env path info attr follow_symlinks tr = (info1, tr1)"
    by (cases "get_one_xattr env path info attr follow_symlinks tr")
  have "only_attributes_differ info info1"
    using get_one_xattr_frame [of info env path attr follow_symlinks tr] g by simp
  from only_attributes_differ_trans [OF this Cons.IH [of info1 tr1]] g show ?case by simp
qed

lemma get_selinux_context_frame:
  "only_attributes_differ info (fst (get_selinux_context env path info m follow_symlinks tr))"
  by (auto simp: get_selinux_context_def split: prod.splits sum.splits)

lemma get_xattrs_retry_frame:
  assumes "get_xattrs_retry env path info follow_symlinks list_size tr = Some r"
  shows "only_attributes_differ info (fst r)"
proof (rule get_xattrs_retry.raw_induct
    [where P = "\<lambda>env path info follow_symlinks list_size tr r. only_attributes_differ info (fst r)",
      OF _ assms], goal_cases)
  case (1 rec env path info follow_symlinks list_size tr r)
  from 1(2) show ?case
    by (auto simp: xattr_walk_frame split: prod.splits sum.splits if_splits dest: 1(1))
qed

lemma get_xattrs_frame:
  assumes "get_xattrs env path info matcher follow_symlinks tr = Some r"
  shows "only_attributes_differ info (fst r)"
  using assms
  by (auto simp: get_xattrs_def get_named_xattrs_frame
      split: prod.splits sum.splits if_splits dest: get_xattrs_retry_frame)

text \<open>The listing does not depend on the size of the buffer offered.\<close>

lemma get_xattrs_returns:
  assumes "\<forall>n. (if follow_symlinks then os_listxattr env path n else os_llistxattr env path n) =
             (if follow_symlinks then os_listxattr env path 0 else os_llistxattr env path 0)"
  shows "\<exists>r. get_xattrs env path info matcher follow_symlinks tr = Some r"
proof (cases "g_file_attribute_matcher_enumerate matcher ''xattr''")
  case False
  then show ?thesis by (simp add: get_xattrs_def)
next
  case True
  show ?thesis
  proof (cases follow_symlinks)
    case follow: True
    with assms have st: "\<And>n. os_listxattr env path n = os_listxattr env path 0" by simp
    show ?thesis
    proof (cases "os_listxattr env path 0")
      case (Inl e)
      then show ?thesis using True follow
        by (simp add: get_xattrs_def listxattr_def xattr_answer_def)
    next
      case (Inr names)
      then have "os_listxattr env path (length (name_list names)) = Inr names"
        using st by simp
      then show ?thesis using True follow Inr
        by (simp add: get_xattrs_def listxattr_def xattr_answer_def
              get_xattrs_retry.simps [of env path info True "length (name_list names)"])
    qed
  next
    case nofollow: False
    with assms have st: "\<And>n. os_llistxattr env path n = os_llistxattr env path 0" by simp
    show ?thesis
    proof (cases "os_llistxattr env path 0")
      case (Inl e)
      then show ?thesis using True nofollow
        by (simp add: get_xattrs_def llistxattr_def xattr_answer_def)
    next
      case (Inr names)
      then have "os_llistxattr env path (length (name_list names)) = Inr names"
        using st by simp
      then show ?thesis using True nofollow Inr
        by (simp add: get_xattrs_def llistxattr_def xattr_answer_def
              get_xattrs_retry.simps [of env path info False "length (name_list names)"])
    qed
  qed
qed


lemma after_stat_returns:
  assumes stable: "\<forall>n. (if follow_symlinks then os_listxattr env path n else os_llistxattr env path n) =
             (if follow_symlinks then os_listxattr env path 0 else os_llistxattr env path 0)"
  shows "\<exists>info6 tr4.
      (case get_selinux_context env path info4 attribute_matcher follow_symlinks tr2 of
         (info5, tr3) \<Rightarrow>
           Option.bind (get_xattrs env path info5 attribute_matcher follow_symlinks tr3)
             (\<lambda>(info6, tr4). Some (Inr info6 :: GError + 'a GFileInfo, tr4))) = Some (Inr info6, tr4) \<and>
      only_attributes_differ info4 info6"
proof -
  obtain info5 tr3 where
    s: "get_selinux_context env path info4 attribute_matcher follow_symlinks tr2 = (info5, tr3)"
    by (cases "get_selinux_context env path info4 attribute_matcher follow_symlinks tr2")
  have a: "only_attributes_differ info4 info5"
    using get_selinux_context_frame [of info4 env path attribute_matcher follow_symlinks tr2] s
    by simp
  obtain info6 tr4 where
    x: "get_xattrs env path info5 attribute_matcher follow_symlinks tr3 = Some (info6, tr4)"
    using get_xattrs_returns [OF stable, of info5 attribute_matcher tr3] by auto
  have b: "only_attributes_differ info5 info6"
    using get_xattrs_frame [OF x] by simp
  show ?thesis
    using s x only_attributes_differ_trans [OF a b] by simp
qed

lemma simple_get_is_hidden:
  assumes "G_FILE_INFO_IS_HIDDEN \<in> requested"
    and "g_file_info_simple_get env basename path requested attribute_matcher follow_symlinks tr =
           Some (Inr info, tr')"
  shows "fi_is_hidden info =
           Some (case basename of None \<Rightarrow> False | Some b \<Rightarrow> first_char b = CHR ''.'')"
proof -
  define info2 :: "'a GFileInfo" where "info2 =
    g_file_info_set_is_hidden
      (if G_FILE_INFO_NAME \<in> requested then g_file_info_set_name g_file_info_new basename
       else g_file_info_new)
      (case basename of None \<Rightarrow> False | Some b \<Rightarrow> first_char b = CHR ''.'')"
  have h2: "fi_is_hidden info2 =
      Some (case basename of None \<Rightarrow> False | Some b \<Rightarrow> first_char b = CHR ''.'')"
    by (simp add: info2_def g_file_info_set_is_hidden_def)
  show ?thesis
  proof (cases "requested - {G_FILE_INFO_NAME, G_FILE_INFO_IS_HIDDEN} = {} \<and> attribute_matcher = None")
    case True
    with assms have "info = info2"
      by (simp add: g_file_info_simple_get_def info2_def)
    with h2 show ?thesis by simp
  next
    case False
    obtain r tr1 where st:
      "(if follow_symlinks then stat env path tr else lstat env path tr) = (r, tr1)"
      by (cases "if follow_symlinks then stat env path tr else lstat env path tr")
    with False assms obtain statbuf where r: "r = Inr statbuf"
      by (cases r) (auto simp: g_file_info_simple_get_def Let_def split: if_splits)
    define info3 where "info3 = g_file_info_set_from_stat info2 requested statbuf"
    have h3: "fi_is_hidden info3 = fi_is_hidden info2"
      by (simp add: info3_def g_file_info_set_from_stat_def)
    from False assms st r obtain info4 tr2 info6 where
      l: "(if G_FILE_INFO_SYMLINK_TARGET \<in> requested then
            Option.bind (read_link env path tr1)
              (\<lambda>(link, tr2). Some (g_file_info_set_symlink_target info3 link, tr2))
          else Some (info3, tr1)) = Some (info4, tr2)"
      and x: "(case get_selinux_context env path info4 attribute_matcher follow_symlinks tr2 of
                (info5, tr3) \<Rightarrow>
                  Option.bind (get_xattrs env path info5 attribute_matcher follow_symlinks tr3)
                    (\<lambda>(info6, tr4). Some (Inr info6 :: GError + 'a GFileInfo, tr4))) =
              Some (Inr info, tr')"
      by (auto simp: g_file_info_simple_get_def Let_def info3_def info2_def bind_eq_Some_conv
          simp del: split_paired_Ex split: if_splits)
    from l have h4: "fi_is_hidden info4 = fi_is_hidden info3"
      by (auto simp: bind_eq_Some_conv g_file_info_set_symlink_target_def split: if_splits)
    obtain info5 tr3 where
      s: "get_selinux_context env path info4 attribute_matcher follow_symlinks tr2 = (info5, tr3)"
      by (cases "get_selinux_context env path info4 attribute_matcher follow_symlinks tr2")
    have a: "only_attributes_differ info4 info5"
      using get_selinux_context_frame [of info4 env path attribute_matcher follow_symlinks tr2] s
      by simp
    from x s obtain tr4 where
      "get_xattrs env path info5 attribute_matcher follow_symlinks tr3 = Some (info, tr4)"
      by (auto simp: bind_eq_Some_conv)
    from get_xattrs_frame [OF this] have "only_attributes_differ info5 info" by simp
    with a h4 h3 h2 show ?thesis by (simp add: only_attributes_differ_def)
  qed
qed

lemma first_char_dot:
  "(case basename of None \<Rightarrow> False | Some b \<Rightarrow> first_char b = CHR ''.'') =
   (\<exists>rest. basename = Some (CHR ''.'' # rest))"
proof (cases basename)
  case None
  then show ?thesis by simp
next
  case (Some b)
  then show ?thesis by (cases b) (auto simp: first_char_def)
qed

subsection \<open>The path entry point, continued\<close>

lemma get_selinux_context_calls:
  assumes "HAVE_SELINUX env"
    and "g_file_attribute_matcher_matches attribute_matcher ''selinux'' ''selinux:context''"
    and "os_is_selinux_enabled env \<noteq> 0"
  shows "snd (get_selinux_context env path info attribute_matcher follow_symlinks tr) =
           tr @ [Is_selinux_enabled,
                 if follow_symlinks then Lgetfilecon_raw path else Getfilecon_raw path]"
  using assms
  by (auto simp: get_selinux_context_def is_selinux_enabled_def lgetfilecon_raw_def
      getfilecon_raw_def split: sum.splits)

text \<open>
  C5, evaluated on the example system (built with \<^verbatim>\<open>HAVE_SELINUX\<close>, SELinux enabled, a
  matcher requesting \<open>selinux\<close>): with \<open>follow_symlinks\<close> true the calls of one pass are
  \<^verbatim>\<open>stat\<close>, which follows symbolic links, and \<^verbatim>\<open>lgetfilecon_raw\<close>, which does not.
\<close>

theorem selinux_context_variant_inverted:
  "map_option snd
     (g_file_info_simple_get example_env (Some ''f'') ''/f'' {G_FILE_INFO_OTHER 0}
        (Some selinux_matcher) True []) =
   Some [Stat ''/f'', Is_selinux_enabled, Lgetfilecon_raw ''/f'']"
  by (simp add: g_file_info_simple_get_def Let_def stat_def example_env_def selinux_matcher_def
      get_selinux_context_def g_file_attribute_matcher_matches_def is_selinux_enabled_def
      lgetfilecon_raw_def get_xattrs_def g_file_attribute_matcher_enumerate_def
      enumerated_keys_def)

text \<open>
  C6. When the symlink-target flag is requested, the metadata call succeeds and
  \<^verbatim>\<open>read_link\<close> returns \<^verbatim>\<open>NULL\<close>, the entry point still returns a bag (provided the
  listing of the extended attributes does not depend on the buffer size offered, so that
  the \<^verbatim>\<open>retry\<close> loop ends), and the bag has no symlink target.
\<close>

theorem symlink_failure_not_fatal:
  assumes "G_FILE_INFO_SYMLINK_TARGET \<in> requested"
    and "(if follow_symlinks then os_stat env path else os_lstat env path) = Inr statbuf"
    and "read_link env path (tr @ [if follow_symlinks then Stat path else Lstat path]) =
           Some (None, tr2)"
    and "\<forall>n. (if follow_symlinks then os_listxattr env path n else os_llistxattr env path n) =
             (if follow_symlinks then os_listxattr env path 0 else os_llistxattr env path 0)"
  shows "\<exists>info tr'.
      g_file_info_simple_get env basename path requested attribute_matcher follow_symlinks tr =
        Some (Inr info, tr') \<and>
      fi_symlink_target info = None"
proof -
  define info2 :: "'a GFileInfo" where "info2 =
    (if G_FILE_INFO_IS_HIDDEN \<in> requested then
       g_file_info_set_is_hidden
         (if G_FILE_INFO_NAME \<in> requested then g_file_info_set_name g_file_info_new basename
          else g_file_info_new)
         (case basename of None \<Rightarrow> False | Some b \<Rightarrow> first_char b = CHR ''.'')
     else (if G_FILE_INFO_NAME \<in> requested then g_file_info_set_name g_file_info_new basename
           else g_file_info_new))"
  define info4 where "info4 =
    g_file_info_set_symlink_target (g_file_info_set_from_stat info2 requested statbuf) None"
  obtain info6 tr4 where r:
    "(case get_selinux_context env path info4 attribute_matcher follow_symlinks tr2 of
         (info5, tr3) \<Rightarrow>
           Option.bind (get_xattrs env path info5 attribute_matcher follow_symlinks tr3)
             (\<lambda>(info6, tr4). Some (Inr info6 :: GError + 'a GFileInfo, tr4))) = Some (Inr info6, tr4)"
    and f: "only_attributes_differ info4 info6"
    using after_stat_returns [OF assms(4), where ?info4.0 = info4 and attribute_matcher = attribute_matcher and ?tr2.0 = tr2]
    by blast
  have "fi_symlink_target info4 = None"
    by (simp add: info4_def g_file_info_set_symlink_target_def)
  with f have "fi_symlink_target info6 = None"
    by (simp add: only_attributes_differ_def)
  moreover have
    "g_file_info_simple_get env basename path requested attribute_matcher follow_symlinks tr =
       Some (Inr info6, tr4)"
    using assms(1,2,3) r
    by (cases follow_symlinks)
       (auto simp: g_file_info_simple_get_def Let_def stat_def lstat_def info4_def info2_def)
  ultimately show ?thesis by blast
qed


theorem symlink_failure_not_fatal_witness:
  "\<exists>info tr'.
      g_file_info_simple_get example_env (Some ''file'') ''/file'' {G_FILE_INFO_SYMLINK_TARGET}
        None False [] = Some (Inr info, tr') \<and>
      fi_symlink_target info = None"
  using symlink_failure_not_fatal [where requested = "{G_FILE_INFO_SYMLINK_TARGET}"
      and follow_symlinks = False and env = example_env and path = "''/file''" and statbuf = "()"
      and tr = "[]" and ?tr2.0 = "[Lstat ''/file'', G_malloc 256, Readlink ''/file'' 256]"
      and basename = "Some ''file''" and attribute_matcher = None]
  by (simp add: read_link_def read_link_loop.simps readlink_def example_env_def)

text \<open>
  C10. When the is-hidden flag is requested, every bag the path entry point returns has
  the is-hidden entry set, to true exactly when the base name is not \<^verbatim>\<open>NULL\<close> and
  starts with a dot; so for a \<^verbatim>\<open>NULL\<close> base name it is set to false. In the trivial case
  (no other flag than name and is-hidden, no matcher) a bag is returned.
\<close>

theorem is_hidden_stored:
  assumes "G_FILE_INFO_IS_HIDDEN \<in> requested"
  shows "(requested \<subseteq> {G_FILE_INFO_NAME, G_FILE_INFO_IS_HIDDEN} \<and> attribute_matcher = None \<longrightarrow>
            (\<exists>info.
               g_file_info_simple_get env basename path requested attribute_matcher follow_symlinks tr =
                 Some (Inr info, tr) \<and>
               fi_is_hidden info = Some (\<exists>rest. basename = Some (CHR ''.'' # rest)))) \<and>
         (\<forall>info tr'.
            g_file_info_simple_get env basename path requested attribute_matcher follow_symlinks tr =
              Some (Inr info, tr') \<longrightarrow>
            fi_is_hidden info = Some (\<exists>rest. basename = Some (CHR ''.'' # rest))) \<and>
         (\<forall>info tr'.
            basename = None \<and>
            g_file_info_simple_get env basename path requested attribute_matcher follow_symlinks tr =
              Some (Inr info, tr') \<longrightarrow>
            fi_is_hidden info = Some False)"
proof -
  have general: "fi_is_hidden info = Some (\<exists>rest. basename = Some (CHR ''.'' # rest))"
    if "g_file_info_simple_get env basename path requested attribute_matcher follow_symlinks tr =
          Some (Inr info, tr')" for info tr'
    using simple_get_is_hidden [OF assms that] by (simp add: first_char_dot)
  have fast: "\<exists>info.
      g_file_info_simple_get env basename path requested attribute_matcher follow_symlinks tr =
        Some (Inr info, tr)"
    if "requested \<subseteq> {G_FILE_INFO_NAME, G_FILE_INFO_IS_HIDDEN}" "attribute_matcher = None"
  proof -
    from that have "requested - {G_FILE_INFO_NAME, G_FILE_INFO_IS_HIDDEN} = {}" by blast
    with that show ?thesis by (simp add: g_file_info_simple_get_def Let_def)
  qed
  show ?thesis using general fast by auto
qed

theorem is_hidden_stored_witness:
  "\<exists>info.
     g_file_info_simple_get example_env None ''/f'' {G_FILE_INFO_IS_HIDDEN} None True [] =
       Some (Inr info, []) \<and>
     fi_is_hidden info = Some False"
  using is_hidden_stored [where requested = "{G_FILE_INFO_IS_HIDDEN}" and attribute_matcher = None
      and env = example_env and basename = None and path = "''/f''" and follow_symlinks = True
      and tr = "[]"]
  by simp

subsection \<open>\<^verbatim>\<open>read_link\<close>\<close>

lemma buffer_size_bound: "j \<le> n \<Longrightarrow> (256::nat) * 2 ^ j \<le> 2 ^ (n + 8)"
proof -
  assume "j \<le> n"
  then have "(2::nat) ^ (j + 8) \<le> 2 ^ (n + 8)" by (intro power_increasing) simp_all
  then show ?thesis by (simp add: power_add mult.commute)
qed

lemma read_link_loop_full:
  assumes "os_readlink env path (256 * 2 ^ j) = Inr t" and "256 * 2 ^ j \<le> length t" and "j \<le> 22"
  shows "read_link_loop env path (256 * 2 ^ j) tr =
           read_link_loop env path (256 * 2 ^ Suc j)
             (tr @ [Readlink path (256 * 2 ^ j), G_realloc (256 * 2 ^ Suc j)])"
proof -
  have a: "(256::nat) * 2 ^ j \<le> 2 ^ 30" using buffer_size_bound [of j 22] assms(3) by simp
  then have b: "\<not> (2::nat) ^ 31 \<le> 256 * 2 ^ j" by simp
  from a have c: "256 * 2 ^ j * 2 mod 2 ^ 32 = (256::nat) * 2 ^ Suc j" by simp
  from assms(2) have d: "length (take (256 * 2 ^ j) t) = 256 * 2 ^ j" by simp
  show ?thesis
    apply (subst read_link_loop.simps)
    apply (simp only: readlink_def assms(1) sum.case prod.case Let_def d b c if_False less_irrefl)
    apply simp
    done
qed

lemma read_link_loop_doubles:
  assumes "\<forall>i<k. \<exists>t. os_readlink env path (256 * 2 ^ (j + i)) = Inr t \<and> 256 * 2 ^ (j + i) \<le> length t"
    and "j + k \<le> 23"
  shows "read_link_loop env path (256 * 2 ^ j) tr =
           read_link_loop env path (256 * 2 ^ (j + k)) (tr @ doubling_events path j k)"
  using assms
proof (induction k arbitrary: j tr)
  case 0
  show ?case by simp
next
  case (Suc k)
  from Suc.prems(1) obtain t where
    t: "os_readlink env path (256 * 2 ^ j) = Inr t" "256 * 2 ^ j \<le> length t"
    by force
  from Suc.prems(2) have j: "j \<le> 22" by simp
  have rest: "\<forall>i<k. \<exists>t. os_readlink env path (256 * 2 ^ (Suc j + i)) = Inr t \<and>
      256 * 2 ^ (Suc j + i) \<le> length t"
  proof (intro allI impI)
    fix i assume "i < k"
    then have "Suc i < Suc k" by simp
    from Suc.prems(1) [rule_format, OF this] show
      "\<exists>t. os_readlink env path (256 * 2 ^ (Suc j + i)) = Inr t \<and> 256 * 2 ^ (Suc j + i) \<le> length t"
      by simp
  qed
  from Suc.prems(2) have "Suc j + k \<le> 23" by simp
  from Suc.IH [OF rest this] read_link_loop_full [OF t j]
  show ?case by simp
qed

lemma read_link_fails:
  assumes "\<forall>i<k. \<exists>t. os_readlink env path (256 * 2 ^ i) = Inr t \<and> 256 * 2 ^ i \<le> length t"
    and "k \<le> 23" and "os_readlink env path (256 * 2 ^ k) = Inl e"
  shows "read_link env path tr =
           Some (None, tr @ G_malloc 256 # doubling_events path 0 k @ [Readlink path (256 * 2 ^ k)])"
proof -
  have "read_link env path tr =
      read_link_loop env path (256 * 2 ^ k) ((tr @ [G_malloc 256]) @ doubling_events path 0 k)"
    unfolding read_link_def
    using read_link_loop_doubles [of k env path 0 "tr @ [G_malloc 256]"] assms(1,2) by simp
  also have "\<dots> = Some (None, tr @ G_malloc 256 # doubling_events path 0 k @ [Readlink path (256 * 2 ^ k)])"
    by (subst read_link_loop.simps) (simp add: readlink_def assms(3))
  finally show ?thesis .
qed

lemma read_link_fits:
  assumes "\<forall>i<k. \<exists>t. os_readlink env path (256 * 2 ^ i) = Inr t \<and> 256 * 2 ^ i \<le> length t"
    and "k \<le> 23" and "os_readlink env path (256 * 2 ^ k) = Inr t" and "length t < 256 * 2 ^ k"
  shows "read_link env path tr =
           Some (Some (t @ [CHR 0x00]),
                 tr @ G_malloc 256 # doubling_events path 0 k @ [Readlink path (256 * 2 ^ k)])"
proof -
  have "(256::nat) * 2 ^ k \<le> 2 ^ 31" using buffer_size_bound [of k 23] assms(2) by simp
  with assms(4) have small: "\<not> (2::nat) ^ 31 \<le> length t" by simp
  have "read_link env path tr =
      read_link_loop env path (256 * 2 ^ k) ((tr @ [G_malloc 256]) @ doubling_events path 0 k)"
    unfolding read_link_def
    using read_link_loop_doubles [of k env path 0 "tr @ [G_malloc 256]"] assms(1,2) by simp
  also have "\<dots> = Some (Some (t @ [CHR 0x00]),
      tr @ G_malloc 256 # doubling_events path 0 k @ [Readlink path (256 * 2 ^ k)])"
    using assms(4) small
    by (subst read_link_loop.simps) (simp add: readlink_def assms(3) Let_def)
  finally show ?thesis .
qed

lemma read_link_static:
  assumes "\<forall>n. os_readlink env path n = Inr t" and "255 < length t" and "length t < 2 ^ 31"
  shows "\<exists>tr'. read_link env path tr = Some (Some (t @ [CHR 0x00]), tr') \<and> G_realloc 512 \<in> set tr'"
proof -
  define k where "k = (LEAST k. length t < 256 * 2 ^ k)"
  have ex: "length t < 256 * 2 ^ (23::nat)" using assms(3) by simp
  then have fits: "length t < 256 * 2 ^ k" unfolding k_def by (rule LeastI)
  from ex have k23: "k \<le> 23" unfolding k_def by (rule Least_le)
  have full: "\<forall>i<k. \<exists>t'. os_readlink env path (256 * 2 ^ i) = Inr t' \<and> 256 * 2 ^ i \<le> length t'"
  proof (intro allI impI)
    fix i assume "i < k"
    then have "\<not> length t < 256 * 2 ^ i" unfolding k_def by (rule not_less_Least)
    with assms(1) show "\<exists>t'. os_readlink env path (256 * 2 ^ i) = Inr t' \<and> 256 * 2 ^ i \<le> length t'"
      by simp
  qed
  from assms(2) fits have "k \<noteq> 0" by (cases k) auto
  then obtain k' where k': "k = Suc k'" by (cases k) auto
  have "read_link env path tr =
      Some (Some (t @ [CHR 0x00]),
            tr @ G_malloc 256 # doubling_events path 0 k @ [Readlink path (256 * 2 ^ k)])"
    using read_link_fits [OF full k23 _ fits] assms(1) by simp
  moreover have "G_realloc 512 \<in> set (doubling_events path 0 k)"
    by (simp add: k')
  ultimately show ?thesis by simp
qed

text \<open>
  C7. \<^verbatim>\<open>read_link\<close> allocates 256 bytes and calls \<^verbatim>\<open>readlink\<close>; as long as a call fills
  its buffer, the buffer is doubled and the call repeated. If the call with the buffer of
  \<open>256 * 2 ^ k\<close> bytes fails, the result is \<^verbatim>\<open>NULL\<close>; if it returns fewer bytes than the
  buffer holds, the result is these bytes with a terminator. The trace is the allocation,
  the \<open>k\<close> doublings and the last call. In particular a link whose contents have more
  than 255 bytes is returned whole after at least one doubling. The size is a 32-bit
  \<^verbatim>\<open>guint\<close> and the count an \<^verbatim>\<open>int\<close>, so this holds up to 23 doublings, that is for
  contents of fewer than \<open>2 ^ 31\<close> bytes.
\<close>

theorem read_link_doubling:
  "(\<forall>k e. k \<le> 23 \<and>
      (\<forall>i<k. \<exists>t. os_readlink env path (256 * 2 ^ i) = Inr t \<and> 256 * 2 ^ i \<le> length t) \<and>
      os_readlink env path (256 * 2 ^ k) = Inl e \<longrightarrow>
      read_link env path tr =
        Some (None, tr @ G_malloc 256 # doubling_events path 0 k @ [Readlink path (256 * 2 ^ k)])) \<and>
   (\<forall>k t. k \<le> 23 \<and>
      (\<forall>i<k. \<exists>t. os_readlink env path (256 * 2 ^ i) = Inr t \<and> 256 * 2 ^ i \<le> length t) \<and>
      os_readlink env path (256 * 2 ^ k) = Inr t \<and> length t < 256 * 2 ^ k \<longrightarrow>
      read_link env path tr =
        Some (Some (t @ [CHR 0x00]),
              tr @ G_malloc 256 # doubling_events path 0 k @ [Readlink path (256 * 2 ^ k)])) \<and>
   (\<forall>t. (\<forall>n. os_readlink env path n = Inr t) \<and> 255 < length t \<and> length t < 2 ^ 31 \<longrightarrow>
      (\<exists>tr'. read_link env path tr = Some (Some (t @ [CHR 0x00]), tr') \<and> G_realloc 512 \<in> set tr'))"
  using read_link_fails [of _ env path _ tr] read_link_fits [of _ env path _ tr]
    read_link_static [of env path _ tr]
  by blast

theorem read_link_doubling_witness:
  "read_link example_env ''/link'' [] =
     Some (Some (replicate 300 (CHR ''a'') @ [CHR 0x00]),
           [G_malloc 256, Readlink ''/link'' 256, G_realloc 512, Readlink ''/link'' 512]) \<and>
   read_link example_env ''/file'' [] = Some (None, [G_malloc 256, Readlink ''/file'' 256])"
proof -
  note inst = read_link_doubling [of example_env _ "[]"]
  have a: "read_link example_env ''/link'' [] =
     Some (Some (replicate 300 (CHR ''a'') @ [CHR 0x00]),
           [G_malloc 256, Readlink ''/link'' 256, G_realloc 512, Readlink ''/link'' 512])"
    using inst [of "''/link''", THEN conjunct2, THEN conjunct1, rule_format,
        of 1 "replicate 300 (CHR ''a'')"]
    by (simp add: example_env_def)
  have b: "read_link example_env ''/file'' [] = Some (None, [G_malloc 256, Readlink ''/file'' 256])"
    using inst [of "''/file''", THEN conjunct1, rule_format, of 0 EINVAL]
    by (simp add: example_env_def)
  from a b show ?thesis by simp
qed

subsection \<open>\<^verbatim>\<open>get_one_xattr\<close>\<close>

text \<open>
  C8, as amended. For an attribute whose value \<open>v\<close> has more than 63 bytes (and does not
  change between the calls), \<^verbatim>\<open>get_one_xattr\<close> calls \<^verbatim>\<open>getxattr\<close> (or \<^verbatim>\<open>lgetxattr\<close>) with
  63 bytes of the stack buffer, which fails with \<^verbatim>\<open>ERANGE\<close>, then with size 0, which
  returns the length of \<open>v\<close>, allocates one byte more than that length, and fetches the
  value with the length as the size; the whole value is escaped and stored under
  \<open>xattr:<attr>\<close>.
\<close>

theorem get_one_xattr_long_value:
  assumes "(if follow_symlinks then os_getxattr env path attr 63 else os_lgetxattr env path attr 63) = Inr v"
    and "(if follow_symlinks then os_getxattr env path attr 0 else os_lgetxattr env path attr 0) = Inr v"
    and "(if follow_symlinks then os_getxattr env path attr (length v)
          else os_lgetxattr env path attr (length v)) = Inr v"
    and "63 < length v"
  shows "get_one_xattr env path info attr follow_symlinks tr =
           escape_xattr info attr v
             (tr @ (if follow_symlinks
                    then [Getxattr path attr 63, Getxattr path attr 0, G_malloc (length v + 1),
                          Getxattr path attr (length v)]
                    else [Lgetxattr path attr 63, Lgetxattr path attr 0, G_malloc (length v + 1),
                          Lgetxattr path attr (length v)])) \<and>
         fi_attributes (fst (get_one_xattr env path info attr follow_symlinks tr)) (''xattr:'' @ attr) =
           Some (concat (map (\<lambda>c. if valid_char c then [c] else escape_sequence c) v))"
proof -
  have "get_one_xattr env path info attr follow_symlinks tr =
           escape_xattr info attr v
             (tr @ (if follow_symlinks
                    then [Getxattr path attr 63, Getxattr path attr 0, G_malloc (length v + 1),
                          Getxattr path attr (length v)]
                    else [Lgetxattr path attr 63, Lgetxattr path attr 0, G_malloc (length v + 1),
                          Lgetxattr path attr (length v)]))"
    using assms
    by (cases follow_symlinks)
       (simp_all add: get_one_xattr_def getxattr_def lgetxattr_def xattr_answer_def)
  then show ?thesis by (simp add: escape_xattr_stored)
qed

theorem get_one_xattr_long_value_witness:
  "get_one_xattr example_env ''/f'' g_file_info_new ''user.big'' False [] =
     (g_file_info_new\<lparr>fi_attributes := [''xattr:user.big'' \<mapsto> replicate 64 (CHR ''b'')]\<rparr>,
      [Lgetxattr ''/f'' ''user.big'' 63, Lgetxattr ''/f'' ''user.big'' 0, G_malloc 65,
       Lgetxattr ''/f'' ''user.big'' 64])"
  using get_one_xattr_long_value [where follow_symlinks = False and env = example_env
      and path = "''/f''" and attr = "''user.big''" and v = "replicate 64 (CHR ''b'')"
      and info = g_file_info_new and tr = "[]"]
  by (simp add: example_env_def escape_xattr_stored valid_char_unsigned g_file_info_new_def)

text \<open>
  C8, as stated, fails: for the 64-byte value of \<open>user.big\<close> the buffer allocated has 65
  bytes, not 64.
\<close>

theorem get_one_xattr_allocation_counterexample:
  "G_malloc 64 \<notin> set (snd (get_one_xattr example_env ''/f'' g_file_info_new ''user.big'' True [])) \<and>
   G_malloc 65 \<in> set (snd (get_one_xattr example_env ''/f'' g_file_info_new ''user.big'' True []))"
  by (simp add: get_one_xattr_def getxattr_def xattr_answer_def example_env_def escape_xattr_stored
      valid_char_unsigned)

end
